theory Spec2Isabelle
  imports Complex_Main
begin

section \<open>The skier and the game loop of ceros-ski\<close>

text \<open>
  A shallow embedding of \<^verbatim>\<open>src/Entities/Skier.ts\<close> and \<^verbatim>\<open>src/Core/Game.ts\<close>.
  Every method that mutates \<^verbatim>\<open>this\<close> is a function from the object before the call to
  the object after it. TypeScript's \<^verbatim>\<open>number\<close> is read as an exact number: positions,
  sizes and the speed are \<open>real\<close>, the score, the direction and the clock (\<^verbatim>\<open>Date.now()\<close>)
  are \<open>int\<close>; rounding of IEEE doubles is not modelled.
\<close>

subsection \<open>Constants\<close>

text \<open>
  \<^verbatim>\<open>src/Constants.ts\<close> is imported by both classes. Its values are parameters of the
  model: every function that reads one of them takes the record \<open>constants\<close>.
  \<open>ANIMATION_FRAME_SPEED_MS\<close> is the period of the animation timer.
\<close>

record constants =
  DIAGONAL_SPEED_REDUCER :: real
  SPEED_INCREASE_THRESHOLD :: int
  OBSTACLE_FREQUENCY_INCREASE_THRESHOLD :: int
  GAME_WIDTH :: real
  GAME_HEIGHT :: real
  ANIMATION_FRAME_SPEED_MS :: int
  KEYS_SPACE :: string
  KEYS_LEFT :: string
  KEYS_RIGHT :: string
  KEYS_UP :: string
  KEYS_DOWN :: string

text \<open>
  Modelled from the spec: the enumeration \<^verbatim>\<open>IMAGE_NAMES\<close> of \<^verbatim>\<open>src/Constants.ts\<close>. The
  members that the two classes name are constructors; the obstacle types of the spec that
  cannot be jumped over are the trees; \<open>OTHER_IMAGE\<close> stands for every further member.
\<close>

datatype IMAGE_NAMES =
    SKIER_CRASH | SKIER_LEFT | SKIER_LEFTDOWN | SKIER_DOWN | SKIER_RIGHTDOWN | SKIER_RIGHT
  | SKIER_JUMP1 | SKIER_JUMP2 | SKIER_JUMP3 | SKIER_JUMP4 | SKIER_JUMP5
  | ROCK1 | ROCK2 | JUMP_RAMP | TREE | TREE_CLUSTER | OTHER_IMAGE nat

definition STARTING_SPEED :: real where
  "STARTING_SPEED = 5"

datatype SKIER_STATES = STATE_SKIING | STATE_JUMPING | STATE_CRASHED | STATE_DEAD

definition DIRECTION_LEFT :: int where "DIRECTION_LEFT = 0"
definition DIRECTION_LEFT_DOWN :: int where "DIRECTION_LEFT_DOWN = 1"
definition DIRECTION_DOWN :: int where "DIRECTION_DOWN = 2"
definition DIRECTION_RIGHT_DOWN :: int where "DIRECTION_RIGHT_DOWN = 3"
definition DIRECTION_RIGHT :: int where "DIRECTION_RIGHT = 4"

text \<open>The object \<^verbatim>\<open>DIRECTION_IMAGES\<close>; a key it does not hold reads as \<^verbatim>\<open>undefined\<close>.\<close>

definition DIRECTION_IMAGES :: "int \<Rightarrow> IMAGE_NAMES option" where
  "DIRECTION_IMAGES d =
     (if d = DIRECTION_LEFT then Some SKIER_LEFT
      else if d = DIRECTION_LEFT_DOWN then Some SKIER_LEFTDOWN
      else if d = DIRECTION_DOWN then Some SKIER_DOWN
      else if d = DIRECTION_RIGHT_DOWN then Some SKIER_RIGHTDOWN
      else if d = DIRECTION_RIGHT then Some SKIER_RIGHT
      else None)"

definition IMAGES_JUMPING :: "IMAGE_NAMES list" where
  "IMAGES_JUMPING = [SKIER_JUMP1, SKIER_JUMP2, SKIER_JUMP3, SKIER_JUMP4, SKIER_JUMP5]"

definition JUMPABLE_OBSTACLES :: "IMAGE_NAMES list" where
  "JUMPABLE_OBSTACLES = [ROCK1, ROCK2, JUMP_RAMP]"

subsection \<open>The skier object\<close>

text \<open>
  The fields of \<^verbatim>\<open>Skier\<close> and those it inherits from \<^verbatim>\<open>Entity\<close>. \<open>imageName\<close> is
  \<open>None\<close> when it holds \<^verbatim>\<open>undefined\<close>.

  Modelled from the spec: the animation fields of \<^verbatim>\<open>Entity\<close>, which is not under
  \<^verbatim>\<open>src/\<close>. The spec describes ``an animation-sequencing helper that advances a frame
  index on a timer and signals completion via a supplied callback'': \<open>curAnimation\<close> says
  whether a sequence is running, \<open>curAnimationFrame\<close> is the frame index and
  \<open>curAnimationFrameTime\<close> the time of the last advance.
\<close>

record skier =
  position_x :: real
  position_y :: real
  imageName :: "IMAGE_NAMES option"
  state :: SKIER_STATES
  direction :: int
  speed :: real
  curAnimation :: bool
  curAnimationFrame :: nat
  curAnimationFrameTime :: int

text \<open>\<^verbatim>\<open>new Skier(x, y, ...)\<close>: the field initialisers of the class.\<close>

definition new_Skier :: "real \<Rightarrow> real \<Rightarrow> int \<Rightarrow> skier" where
  "new_Skier x y now =
     \<lparr> position_x = x, position_y = y, imageName = Some SKIER_DOWN,
       state = STATE_SKIING, direction = DIRECTION_DOWN, speed = STARTING_SPEED,
       curAnimation = False, curAnimationFrame = 0, curAnimationFrameTime = now \<rparr>"

definition isCrashed :: "skier \<Rightarrow> bool" where
  "isCrashed s = (state s = STATE_CRASHED)"

definition isSkiing :: "skier \<Rightarrow> bool" where
  "isSkiing s = (state s = STATE_SKIING)"

definition isJumping :: "skier \<Rightarrow> bool" where
  "isJumping s = (state s = STATE_JUMPING)"

definition isDead :: "skier \<Rightarrow> bool" where
  "isDead s = (state s = STATE_DEAD)"

definition isDownwardsFacing :: "skier \<Rightarrow> bool" where
  "isDownwardsFacing s =
     (if direction s = DIRECTION_DOWN then True
      else if direction s = DIRECTION_LEFT_DOWN then True
      else if direction s = DIRECTION_RIGHT_DOWN then True
      else False)"

definition isMovingDownwards :: "skier \<Rightarrow> bool" where
  "isMovingDownwards s = (isDownwardsFacing s \<and> speed s > 0)"

definition setDirectionalImage :: "skier \<Rightarrow> skier" where
  "setDirectionalImage s = s\<lparr>imageName := DIRECTION_IMAGES (direction s)\<rparr>"

definition setDirection :: "int \<Rightarrow> skier \<Rightarrow> skier" where
  "setDirection d s = setDirectionalImage (s\<lparr>direction := d\<rparr>)"

subsection \<open>Movement\<close>

definition moveSkierLeft :: "skier \<Rightarrow> skier" where
  "moveSkierLeft s = s\<lparr>position_x := position_x s - STARTING_SPEED\<rparr>"

definition moveSkierLeftDown :: "constants \<Rightarrow> skier \<Rightarrow> skier" where
  "moveSkierLeftDown K s =
     s\<lparr>position_x := position_x s - speed s / DIAGONAL_SPEED_REDUCER K,
       position_y := position_y s + speed s / DIAGONAL_SPEED_REDUCER K\<rparr>"

definition moveSkierDown :: "skier \<Rightarrow> skier" where
  "moveSkierDown s = s\<lparr>position_y := position_y s + speed s\<rparr>"

definition moveSkierRightDown :: "constants \<Rightarrow> skier \<Rightarrow> skier" where
  "moveSkierRightDown K s =
     s\<lparr>position_x := position_x s + speed s / DIAGONAL_SPEED_REDUCER K,
       position_y := position_y s + speed s / DIAGONAL_SPEED_REDUCER K\<rparr>"

definition moveSkierRight :: "skier \<Rightarrow> skier" where
  "moveSkierRight s = s\<lparr>position_x := position_x s + STARTING_SPEED\<rparr>"

definition moveSkierUp :: "skier \<Rightarrow> skier" where
  "moveSkierUp s = s\<lparr>position_y := position_y s - STARTING_SPEED\<rparr>"

text \<open>The \<^verbatim>\<open>switch\<close> of \<^verbatim>\<open>move\<close>; a direction that matches no case falls through.\<close>

definition move :: "constants \<Rightarrow> skier \<Rightarrow> skier" where
  "move K s =
     (if direction s = DIRECTION_LEFT_DOWN then moveSkierLeftDown K s
      else if direction s = DIRECTION_DOWN then moveSkierDown s
      else if direction s = DIRECTION_RIGHT_DOWN then moveSkierRightDown K s
      else if direction s = DIRECTION_LEFT \<or> direction s = DIRECTION_RIGHT then s
      else s)"

subsection \<open>State changes\<close>

definition crash :: "skier \<Rightarrow> skier" where
  "crash s = s\<lparr>state := STATE_CRASHED, speed := 0, imageName := Some SKIER_CRASH\<rparr>"

definition recoverFromCrash :: "int \<Rightarrow> skier \<Rightarrow> skier" where
  "recoverFromCrash newDirection s =
     setDirection newDirection (s\<lparr>state := STATE_SKIING, speed := STARTING_SPEED\<rparr>)"

definition landFromJump :: "real \<Rightarrow> skier \<Rightarrow> skier" where
  "landFromJump currentSpeed s = s\<lparr>state := STATE_SKIING, speed := currentSpeed\<rparr>"

definition die :: "skier \<Rightarrow> skier" where
  "die s = s\<lparr>state := STATE_DEAD, speed := 0\<rparr>"

text \<open>
  The callback that \<^verbatim>\<open>setupAnimations\<close> passes to the jump animation is the arrow function
  \<^verbatim>\<open>() => this.landFromJump(this.speed)\<close>. Its body, and so the read of \<^verbatim>\<open>this.speed\<close>,
  is evaluated when the callback is called, on the object as it is then.
\<close>

definition jumpAnimationCallback :: "skier \<Rightarrow> skier" where
  "jumpAnimationCallback s = landFromJump (speed s) s"

text \<open>
  Modelled from the spec: \<^verbatim>\<open>Entity.setAnimation\<close> and \<^verbatim>\<open>Entity.animate\<close>, which are not
  under \<^verbatim>\<open>src/\<close>. Starting a sequence shows its first image at frame index 0. Advancing
  it, once more than the timer period has passed since the last advance, moves to the next
  frame; after the last image of the non-looping jump sequence the sequence ends and the
  supplied callback is called.
\<close>

definition setAnimation :: "skier \<Rightarrow> skier" where
  "setAnimation s =
     s\<lparr>curAnimation := True, curAnimationFrame := 0, imageName := Some (hd IMAGES_JUMPING)\<rparr>"

definition finishAnimation :: "skier \<Rightarrow> skier" where
  "finishAnimation s = jumpAnimationCallback (s\<lparr>curAnimation := False\<rparr>)"

definition nextAnimationFrame :: "int \<Rightarrow> skier \<Rightarrow> skier" where
  "nextAnimationFrame gameTime s =
     (let s1 = s\<lparr>curAnimationFrameTime := gameTime,
                  curAnimationFrame := curAnimationFrame s + 1\<rparr>
      in if curAnimationFrame s1 \<ge> length IMAGES_JUMPING then finishAnimation s1
         else s1\<lparr>imageName := Some (IMAGES_JUMPING ! curAnimationFrame s1)\<rparr>)"

definition animate :: "constants \<Rightarrow> int \<Rightarrow> skier \<Rightarrow> skier" where
  "animate K gameTime s =
     (if \<not> curAnimation s then s
      else if gameTime - curAnimationFrameTime s > ANIMATION_FRAME_SPEED_MS K
      then nextAnimationFrame gameTime s
      else s)"

definition jump :: "skier \<Rightarrow> skier" where
  "jump s =
     (if isCrashed s then s
      else setAnimation (s\<lparr>state := STATE_JUMPING\<rparr>))"

subsection \<open>Input\<close>

definition turnLeft :: "skier \<Rightarrow> skier" where
  "turnLeft s =
     (let s1 = (if isCrashed s then recoverFromCrash DIRECTION_LEFT s else s)
      in if state s1 \<noteq> STATE_JUMPING
         then (if direction s1 = DIRECTION_LEFT then moveSkierLeft s1
               else setDirection (direction s1 - 1) s1)
         else s1)"

definition turnRight :: "skier \<Rightarrow> skier" where
  "turnRight s =
     (let s1 = (if isCrashed s then recoverFromCrash DIRECTION_RIGHT s else s)
      in if state s1 \<noteq> STATE_JUMPING
         then (if direction s1 = DIRECTION_RIGHT then moveSkierRight s1
               else setDirection (direction s1 + 1) s1)
         else s1)"

definition turnUp :: "skier \<Rightarrow> skier" where
  "turnUp s =
     (if isCrashed s then s
      else if direction s = DIRECTION_LEFT \<or> direction s = DIRECTION_RIGHT
      then moveSkierUp s
      else s)"

definition turnDown :: "skier \<Rightarrow> skier" where
  "turnDown s =
     (if isCrashed s then s
      else setDirection DIRECTION_DOWN s)"

text \<open>
  \<^verbatim>\<open>handleInput\<close> returns the flag \<^verbatim>\<open>handled\<close> together with the object after the call.
  The cases of the \<^verbatim>\<open>switch\<close> are tried in the order of the source.
\<close>

definition handleInput :: "constants \<Rightarrow> string \<Rightarrow> skier \<Rightarrow> bool \<times> skier" where
  "handleInput K inputKey s =
     (if isDead s then (False, s)
      else if inputKey = KEYS_SPACE K then (True, jump s)
      else if inputKey = KEYS_LEFT K then (True, turnLeft s)
      else if inputKey = KEYS_RIGHT K then (True, turnRight s)
      else if inputKey = KEYS_UP K then (True, turnUp s)
      else if inputKey = KEYS_DOWN K then (True, turnDown s)
      else (False, s))"

subsection \<open>Collision with obstacles\<close>

record Rect =
  rect_left :: real
  rect_top :: real
  rect_right :: real
  rect_bottom :: real

record image =
  width :: real
  height :: real

text \<open>
  What \<^verbatim>\<open>checkIfHitObstacle\<close> reads from its collaborators, none of which is under
  \<^verbatim>\<open>src/\<close>: of each obstacle its \<^verbatim>\<open>imageName\<close> and the result of its \<^verbatim>\<open>getBounds()\<close>
  (\<open>None\<close> for \<^verbatim>\<open>null\<close>); the image manager's \<^verbatim>\<open>getImage\<close> (\<open>None\<close> for an image that is
  not loaded); the sequence \<^verbatim>\<open>obstacleManager.getObstacles()\<close>; and the predicate
  \<^verbatim>\<open>intersectTwoRects\<close> of \<^verbatim>\<open>Core/Utils\<close>. They are parameters of the model.
\<close>

record obstacle =
  obstacle_imageName :: IMAGE_NAMES
  obstacle_bounds :: "Rect option"

record world =
  getImage :: "IMAGE_NAMES option \<Rightarrow> image option"
  getObstacles :: "obstacle list"
  intersectTwoRects :: "Rect \<Rightarrow> Rect \<Rightarrow> bool"

definition getBounds :: "world \<Rightarrow> skier \<Rightarrow> Rect option" where
  "getBounds W s =
     (case getImage W (imageName s) of
        None \<Rightarrow> None
      | Some img \<Rightarrow>
          Some \<lparr> rect_left = position_x s - width img / 2,
                 rect_top = position_y s - height img / 2,
                 rect_right = position_x s + width img / 2,
                 rect_bottom = position_y s - height img / 4 \<rparr>)"

definition interactWhileSkiing :: "IMAGE_NAMES \<Rightarrow> skier \<Rightarrow> skier" where
  "interactWhileSkiing ob s = (if ob = JUMP_RAMP then jump s else crash s)"

definition interactWhileJumping :: "IMAGE_NAMES \<Rightarrow> skier \<Rightarrow> skier" where
  "interactWhileJumping ob s = (if \<not> (ob \<in> set JUMPABLE_OBSTACLES) then crash s else s)"

text \<open>Two \<^verbatim>\<open>if\<close> statements in sequence: the second tests the state the first has left.\<close>

definition interactWithObstacle :: "IMAGE_NAMES \<Rightarrow> skier \<Rightarrow> skier" where
  "interactWithObstacle ob s =
     (let s1 = (if state s = STATE_SKIING then interactWhileSkiing ob s else s)
      in if state s1 = STATE_JUMPING then interactWhileJumping ob s1 else s1)"

text \<open>
  The callback given to \<^verbatim>\<open>Array.find\<close> assigns \<^verbatim>\<open>obstacleName\<close> for every obstacle with
  bounds that it visits, and \<^verbatim>\<open>find\<close> stops at the first obstacle for which it returns
  true. \<open>findObstacle\<close> returns the found obstacle and the last name assigned. The names
  of the enumeration are non-empty strings, so an assigned name is truthy in the test
  \<^verbatim>\<open>interaction && obstacleName\<close> of \<^verbatim>\<open>checkIfHitObstacle\<close>.
\<close>

fun findObstacle ::
  "world \<Rightarrow> Rect \<Rightarrow> obstacle list \<Rightarrow> IMAGE_NAMES option \<Rightarrow> obstacle option \<times> IMAGE_NAMES option"
where
  "findObstacle W skierBounds [] obstacleName = (None, obstacleName)"
| "findObstacle W skierBounds (ob # obs) obstacleName =
     (case obstacle_bounds ob of
        None \<Rightarrow> findObstacle W skierBounds obs obstacleName
      | Some obstacleBounds \<Rightarrow>
          if intersectTwoRects W skierBounds obstacleBounds
          then (Some ob, Some (obstacle_imageName ob))
          else findObstacle W skierBounds obs (Some (obstacle_imageName ob)))"

definition checkIfHitObstacle :: "world \<Rightarrow> skier \<Rightarrow> skier" where
  "checkIfHitObstacle W s =
     (case getBounds W s of
        None \<Rightarrow> s
      | Some skierBounds \<Rightarrow>
          (case findObstacle W skierBounds (getObstacles W) None of
             (Some interaction, Some obstacleName) \<Rightarrow> interactWithObstacle obstacleName s
           | _ \<Rightarrow> s))"

subsection \<open>The frame update of the skier\<close>

text \<open>
  The remainder operator \<^verbatim>\<open>%\<close> on integers: the result has the sign of the dividend, and
  a zero divisor gives \<^verbatim>\<open>NaN\<close> (\<open>None\<close>), which is not \<^verbatim>\<open>=== 0\<close>.
\<close>

definition js_rem :: "int \<Rightarrow> int \<Rightarrow> int option" where
  "js_rem a b = (if b = 0 then None else Some (sgn a * (\<bar>a\<bar> mod \<bar>b\<bar>)))"

definition increaseSpeedIfThresholdMet :: "constants \<Rightarrow> int \<Rightarrow> skier \<Rightarrow> skier" where
  "increaseSpeedIfThresholdMet K currentScore s =
     (if js_rem currentScore (SPEED_INCREASE_THRESHOLD K) = Some 0
      then s\<lparr>speed := speed s + 1\<rparr>
      else s)"

definition update :: "constants \<Rightarrow> world \<Rightarrow> int \<Rightarrow> int \<Rightarrow> skier \<Rightarrow> skier" where
  "update K W gameTime currentScore s =
     (let s1 = (if isSkiing s then checkIfHitObstacle W (move K s) else s);
          s2 = (if isJumping s1
                then checkIfHitObstacle W (animate K gameTime (move K s1))
                else s1)
      in increaseSpeedIfThresholdMet K currentScore s2)"

subsection \<open>The game\<close>

datatype GAME_STATES = STATE_PLAYING | STATE_PAUSED

text \<open>
  The calls that \<^verbatim>\<open>Game\<close> makes on the canvas, the obstacle manager, the skier, the rhino
  and the frame scheduler. The field \<open>calls\<close> of the game records them in order.
\<close>

datatype call =
    CLEAR_CANVAS | INCREASE_OBSTACLE_PLACEMENT_CHANCE | PLACE_NEW_OBSTACLE
  | SKIER_UPDATE | RHINO_UPDATE
  | SET_DRAW_OFFSET | DRAW_GAME_METADATA | SKIER_DRAW | RHINO_DRAW | DRAW_OBSTACLES
  | REQUEST_ANIMATION_FRAME | DRAW_PAUSE_ICON

record game =
  game_state :: GAME_STATES
  currentScore :: int
  gameWindow :: Rect
  gameTime :: int
  skier :: skier
  calls :: "call list"

text \<open>
  What one frame receives from outside the two classes: the clock \<^verbatim>\<open>Date.now()\<close>, the
  world the skier collides with once \<^verbatim>\<open>placeNewObstacle\<close> has run, and the rhino.

  Modelled from the spec: \<^verbatim>\<open>Rhino.update\<close>, which is not under \<^verbatim>\<open>src/\<close>. The enemy
  ``reads but does not mutate player state'', except that it ``may trigger the player's
  death transition'': \<open>rhinoCatchesSkier\<close> says whether it calls \<^verbatim>\<open>die()\<close> in this frame.
\<close>

record frame =
  now :: int
  frame_world :: world
  rhinoCatchesSkier :: bool

definition rhino_update :: "frame \<Rightarrow> skier \<Rightarrow> skier" where
  "rhino_update F s = (if rhinoCatchesSkier F then die s else s)"

definition isPlaying :: "game \<Rightarrow> bool" where
  "isPlaying g = (game_state g = STATE_PLAYING)"

definition isPaused :: "game \<Rightarrow> bool" where
  "isPaused g = (game_state g = STATE_PAUSED)"

definition called :: "call \<Rightarrow> game \<Rightarrow> game" where
  "called c g = g\<lparr>calls := calls g @ [c]\<rparr>"

definition calculateGameWindow :: "constants \<Rightarrow> game \<Rightarrow> game" where
  "calculateGameWindow K g =
     (let left = position_x (skier g) - GAME_WIDTH K / 2;
          top = position_y (skier g) - GAME_HEIGHT K / 2
      in g\<lparr>gameWindow := \<lparr> rect_left = left, rect_top = top,
                            rect_right = left + GAME_WIDTH K,
                            rect_bottom = top + GAME_HEIGHT K \<rparr>\<rparr>)"

text \<open>\<^verbatim>\<open>new Game()\<close> at clock \<open>t\<close>: the field initialisers and \<^verbatim>\<open>init\<close>.\<close>

definition new_Game :: "constants \<Rightarrow> int \<Rightarrow> game" where
  "new_Game K t =
     calculateGameWindow K
       \<lparr> game_state = STATE_PLAYING, currentScore = 0,
         gameWindow = \<lparr> rect_left = 0, rect_top = 0, rect_right = 0, rect_bottom = 0 \<rparr>,
         gameTime = t, skier = new_Skier 0 0 t, calls = [] \<rparr>"

definition updateCurrentScore :: "game \<Rightarrow> game" where
  "updateCurrentScore g =
     (if isMovingDownwards (skier g) then g\<lparr>currentScore := currentScore g + 1\<rparr> else g)"

definition updateGameWindow :: "constants \<Rightarrow> frame \<Rightarrow> game \<Rightarrow> game" where
  "updateGameWindow K F g =
     (let g1 = calculateGameWindow K (g\<lparr>gameTime := now F\<rparr>);
          g2 = (if js_rem (currentScore g1) (OBSTACLE_FREQUENCY_INCREASE_THRESHOLD K) = Some 0
                then called INCREASE_OBSTACLE_PLACEMENT_CHANCE g1 else g1);
          g3 = called PLACE_NEW_OBSTACLE g2;
          g4 = called SKIER_UPDATE
                 (g3\<lparr>skier := update K (frame_world F) (gameTime g3) (currentScore g3) (skier g3)\<rparr>);
          g5 = called RHINO_UPDATE (g4\<lparr>skier := rhino_update F (skier g4)\<rparr>)
      in g5)"

definition drawGameWindow :: "game \<Rightarrow> game" where
  "drawGameWindow g =
     called DRAW_OBSTACLES (called RHINO_DRAW (called SKIER_DRAW
       (called DRAW_GAME_METADATA (called SET_DRAW_OFFSET g))))"

text \<open>One call of \<^verbatim>\<open>run\<close>.\<close>

definition run :: "constants \<Rightarrow> frame \<Rightarrow> game \<Rightarrow> game" where
  "run K F g =
     (let g1 = (if isPlaying g
                then called REQUEST_ANIMATION_FRAME
                       (drawGameWindow (updateCurrentScore
                          (updateGameWindow K F (called CLEAR_CANVAS g))))
                else g)
      in if isPaused g1 then called DRAW_PAUSE_ICON g1 else g1)"

text \<open>
  \<^verbatim>\<open>run\<close> asks the scheduler for its next call only in the branch of the playing state.
  \<open>run_frames\<close> is the chain of calls this gives, one for each frame the scheduler
  delivers, when no key is handled in between: it ends with the first call that finds
  the game paused.
\<close>

fun run_frames :: "constants \<Rightarrow> frame list \<Rightarrow> game \<Rightarrow> game" where
  "run_frames K [] g = g"
| "run_frames K (F # Fs) g =
     (if isPlaying g then run_frames K Fs (run K F g) else run K F g)"

section \<open>Example inputs\<close>

text \<open>
  Values for the parameters of the model, used where a theorem is evaluated at a concrete
  input: a speed threshold of 10, an animation timer of 250 ms, the key names of the
  browser, an image manager that has loaded every image at 20 by 30, and the overlap test
  of axis-aligned rectangles.
\<close>

definition example_constants :: constants where
  "example_constants =
     \<lparr> DIAGONAL_SPEED_REDUCER = 14142 / 10000, SPEED_INCREASE_THRESHOLD = 10,
       OBSTACLE_FREQUENCY_INCREASE_THRESHOLD = 100,
       GAME_WIDTH = 800, GAME_HEIGHT = 600, ANIMATION_FRAME_SPEED_MS = 250,
       KEYS_SPACE = '' '', KEYS_LEFT = ''ArrowLeft'', KEYS_RIGHT = ''ArrowRight'',
       KEYS_UP = ''ArrowUp'', KEYS_DOWN = ''ArrowDown'' \<rparr>"

definition rects_overlap :: "Rect \<Rightarrow> Rect \<Rightarrow> bool" where
  "rects_overlap rect1 rect2 =
     (\<not> (rect_left rect2 > rect_right rect1 \<or> rect_right rect2 < rect_left rect1
         \<or> rect_top rect2 > rect_bottom rect1 \<or> rect_bottom rect2 < rect_top rect1))"

definition open_slope :: world where
  "open_slope =
     \<lparr> getImage = (\<lambda>n. case n of None \<Rightarrow> None | Some _ \<Rightarrow> Some \<lparr> width = 20, height = 30 \<rparr>),
       getObstacles = [],
       intersectTwoRects = rects_overlap \<rparr>"

text \<open>The same slope with one tree whose bounds cover the origin.\<close>

definition tree_ahead :: world where
  "tree_ahead =
     open_slope\<lparr>getObstacles :=
       [\<lparr> obstacle_imageName = TREE,
          obstacle_bounds = Some \<lparr> rect_left = -10, rect_top = -10,
                                   rect_right = 10, rect_bottom = 0 \<rparr> \<rparr>]\<rparr>"

text \<open>The same slope with one jump ramp in place of the tree.\<close>

definition ramp_ahead :: world where
  "ramp_ahead =
     open_slope\<lparr>getObstacles :=
       [\<lparr> obstacle_imageName = JUMP_RAMP,
          obstacle_bounds = Some \<lparr> rect_left = -10, rect_top = -10,
                                   rect_right = 10, rect_bottom = 0 \<rparr> \<rparr>]\<rparr>"

definition frame_at :: "int \<Rightarrow> world \<Rightarrow> frame" where
  "frame_at t W = \<lparr> now = t, frame_world = W, rhinoCatchesSkier = False \<rparr>"

definition rhino_catches_at :: "int \<Rightarrow> world \<Rightarrow> frame" where
  "rhino_catches_at t W = \<lparr> now = t, frame_world = W, rhinoCatchesSkier = True \<rparr>"

definition frames_at :: "world \<Rightarrow> int list \<Rightarrow> frame list" where
  "frames_at W ts = map (\<lambda>t. frame_at t W) ts"

text \<open>Eleven frames, 16 ms apart.\<close>

definition ticks :: "int list" where
  "ticks = [16, 32, 48, 64, 80, 96, 112, 128, 144, 160, 176]"

text \<open>A new game whose skier is caught by the rhino in the first frame.\<close>

definition caught_game :: game where
  "caught_game =
     run example_constants (rhino_catches_at 16 open_slope) (new_Game example_constants 0)"

text \<open>A new skier that has turned left once and then jumped.\<close>

definition airborne_skier :: skier where
  "airborne_skier = jump (turnLeft (new_Skier 0 0 0))"

text \<open>The invariant of the data model: a crashed or dead skier has speed 0.\<close>

definition stopped_inv :: "skier \<Rightarrow> bool" where
  "stopped_inv s =
     (if state s = STATE_CRASHED \<or> state s = STATE_DEAD then speed s = 0 else True)"

section \<open>Unfolding rules\<close>

lemmas DIRECTION_defs =
  DIRECTION_LEFT_def DIRECTION_LEFT_DOWN_def DIRECTION_DOWN_def
  DIRECTION_RIGHT_DOWN_def DIRECTION_RIGHT_def

lemmas predicate_defs =
  isCrashed_def isSkiing_def isJumping_def isDead_def isDownwardsFacing_def
  isMovingDownwards_def

lemmas move_defs =
  move_def moveSkierDown_def moveSkierLeftDown_def moveSkierRightDown_def
  moveSkierLeft_def moveSkierRight_def moveSkierUp_def STARTING_SPEED_def

lemmas state_defs =
  crash_def die_def jump_def recoverFromCrash_def landFromJump_def jumpAnimationCallback_def
  setAnimation_def finishAnimation_def nextAnimationFrame_def animate_def
  setDirection_def setDirectionalImage_def DIRECTION_IMAGES_def IMAGES_JUMPING_def

lemmas input_defs =
  turnLeft_def turnRight_def turnUp_def turnDown_def handleInput_def

lemmas collision_defs =
  getBounds_def checkIfHitObstacle_def interactWithObstacle_def interactWhileSkiing_def
  interactWhileJumping_def JUMPABLE_OBSTACLES_def

lemmas update_defs =
  update_def increaseSpeedIfThresholdMet_def js_rem_def new_Skier_def

lemmas skier_defs =
  DIRECTION_defs predicate_defs move_defs state_defs input_defs collision_defs update_defs

lemmas game_defs =
  run_def updateGameWindow_def updateCurrentScore_def drawGameWindow_def called_def
  calculateGameWindow_def new_Game_def isPlaying_def isPaused_def rhino_update_def

lemmas example_defs =
  example_constants_def open_slope_def tree_ahead_def ramp_ahead_def rects_overlap_def
  frame_at_def
  rhino_catches_at_def frames_at_def ticks_def caught_game_def airborne_skier_def

section \<open>The invariant of a stopped skier\<close>

text \<open>
  Every operation on the skier except the frame update keeps \<open>stopped_inv\<close>, and the frame
  update keeps it in every frame whose score is not a multiple of the speed threshold.
\<close>

lemma stopped_inv_crash: "stopped_inv (crash s)"
  by (simp add: stopped_inv_def crash_def)

lemma stopped_inv_die: "stopped_inv (die s)"
  by (simp add: stopped_inv_def die_def)

lemma stopped_inv_jump: "stopped_inv s \<Longrightarrow> stopped_inv (jump s)"
  by (simp add: stopped_inv_def jump_def setAnimation_def isCrashed_def)

lemma stopped_inv_landing: "stopped_inv (jumpAnimationCallback s)"
  by (simp add: stopped_inv_def jumpAnimationCallback_def landFromJump_def)

lemma stopped_inv_handleInput: "stopped_inv s \<Longrightarrow> stopped_inv (snd (handleInput K k s))"
  by (auto simp add: stopped_inv_def skier_defs Let_def split: if_splits)

lemma stopped_inv_interactWithObstacle:
  "stopped_inv s \<Longrightarrow> stopped_inv (interactWithObstacle ob s)"
  by (simp add: stopped_inv_def skier_defs Let_def)

lemma stopped_inv_checkIfHitObstacle:
  "stopped_inv s \<Longrightarrow> stopped_inv (checkIfHitObstacle W s)"
  by (simp add: checkIfHitObstacle_def stopped_inv_interactWithObstacle
      split: option.splits prod.splits)

lemma stopped_inv_move: "stopped_inv (move K s) = stopped_inv s"
  by (simp add: stopped_inv_def skier_defs)

lemma stopped_inv_animate: "stopped_inv s \<Longrightarrow> stopped_inv (animate K t s)"
  by (simp add: stopped_inv_def skier_defs Let_def)

lemma stopped_inv_update_off_threshold:
  "stopped_inv s \<Longrightarrow> js_rem score (SPEED_INCREASE_THRESHOLD K) \<noteq> Some 0
     \<Longrightarrow> stopped_inv (update K W t score s)"
  by (simp add: update_def increaseSpeedIfThresholdMet_def Let_def
      stopped_inv_checkIfHitObstacle stopped_inv_move stopped_inv_animate)

text \<open>
  Claim C1: in every reachable state of the skier, and after each of its operations
  (update, handleInput, crash, die, jump, landing), a skier that is crashed or dead has
  speed 0. The comments of the source say the same: \<^verbatim>\<open>crash\<close> sets ``the speed to zero
  cause you can't move when crashed'', and \<^verbatim>\<open>increaseSpeedIfThresholdMet\<close> is to raise the
  speed ``if the skier doesn't crash or stop''. The code of \<^verbatim>\<open>update\<close> calls the speed
  increase in every state. A new skier that hits a tree in an update with score 0 ends that
  update crashed with speed 1, and an update of a crashed skier with speed 0 at score 20
  leaves it crashed with speed 1.
\<close>

theorem update_breaks_stopped_invariant:
  "state (update example_constants tree_ahead 16 0 (new_Skier 0 0 0)) = STATE_CRASHED
   \<and> speed (update example_constants tree_ahead 16 0 (new_Skier 0 0 0)) = 1
   \<and> stopped_inv (crash (new_Skier 0 0 0))
   \<and> state (update example_constants open_slope 16 20 (crash (new_Skier 0 0 0))) = STATE_CRASHED
   \<and> speed (update example_constants open_slope 16 20 (crash (new_Skier 0 0 0))) = 1
   \<and> \<not> stopped_inv (update example_constants open_slope 16 20 (crash (new_Skier 0 0 0)))"
  by (simp add: skier_defs example_defs stopped_inv_def Let_def)

section \<open>Landing from a jump\<close>

lemma jumpAnimationCallback_speed: "speed (jumpAnimationCallback s) = speed s"
  by (simp add: jumpAnimationCallback_def landFromJump_def)

lemma jump_through_update:
  "state (update example_constants open_slope 300 10 (jump (new_Skier 0 0 0))) = STATE_JUMPING
   \<and> speed (update example_constants open_slope 300 10 (jump (new_Skier 0 0 0))) = 6
   \<and> state (update example_constants open_slope 1500 14
        (update example_constants open_slope 1200 13
          (update example_constants open_slope 900 12
            (update example_constants open_slope 600 11
              (update example_constants open_slope 300 10 (jump (new_Skier 0 0 0))))))) = STATE_SKIING
   \<and> speed (update example_constants open_slope 1500 14
        (update example_constants open_slope 1200 13
          (update example_constants open_slope 900 12
            (update example_constants open_slope 600 11
              (update example_constants open_slope 300 10 (jump (new_Skier 0 0 0))))))) = 6"
  by (simp add: skier_defs example_defs Let_def)

text \<open>
  Claim C2: when the jump animation completes and the skier goes from jumping back to
  skiing, its speed is restored to the value it had when the jump started, even if the
  speed increase fired during the jump. The comment of \<^verbatim>\<open>landFromJump\<close> says the same (``the
  speed they had before the jump''). The callback reads \<^verbatim>\<open>this.speed\<close> when the animation
  completes, so landing keeps the speed of that moment: a skier that jumps at speed 5 and
  receives the speed increase of score 10 in the air lands with speed 6.
\<close>

theorem landing_keeps_speed_gained_in_jump:
  "state (jump (new_Skier 0 0 0)) = STATE_JUMPING
   \<and> speed (jump (new_Skier 0 0 0)) = 5
   \<and> speed (increaseSpeedIfThresholdMet example_constants 10 (jump (new_Skier 0 0 0))) = 6
   \<and> state (jumpAnimationCallback
        (increaseSpeedIfThresholdMet example_constants 10 (jump (new_Skier 0 0 0)))) = STATE_SKIING
   \<and> speed (jumpAnimationCallback
        (increaseSpeedIfThresholdMet example_constants 10 (jump (new_Skier 0 0 0)))) = 6"
  by (simp add: skier_defs example_defs)

section \<open>The speed in the first frames\<close>

text \<open>
  Claim C3: with starting speed 5 and speed threshold 10, in a run where the skier stays
  skiing and facing down from the initial state, the speed is 5 until the score reaches 10,
  becomes 6 on the frame the score crosses 10, and stays 6 until the score reaches 20.
  In the code the first frame already runs the update with score 0, and 0 is a multiple of
  10: after one frame the speed is 6 at score 1, after ten frames it is 6 at score 10, and
  after eleven frames it is 7 at score 11.
\<close>

theorem speed_raised_at_score_zero:
  "SPEED_INCREASE_THRESHOLD example_constants = 10
   \<and> speed (skier (new_Game example_constants 0)) = 5
   \<and> currentScore (new_Game example_constants 0) = 0
   \<and> speed (skier (run_frames example_constants (frames_at open_slope (take 1 ticks))
        (new_Game example_constants 0))) = 6
   \<and> currentScore (run_frames example_constants (frames_at open_slope (take 1 ticks))
        (new_Game example_constants 0)) = 1
   \<and> speed (skier (run_frames example_constants (frames_at open_slope (take 10 ticks))
        (new_Game example_constants 0))) = 6
   \<and> currentScore (run_frames example_constants (frames_at open_slope (take 10 ticks))
        (new_Game example_constants 0)) = 10
   \<and> speed (skier (run_frames example_constants (frames_at open_slope ticks)
        (new_Game example_constants 0))) = 7
   \<and> currentScore (run_frames example_constants (frames_at open_slope ticks)
        (new_Game example_constants 0)) = 11
   \<and> state (skier (run_frames example_constants (frames_at open_slope ticks)
        (new_Game example_constants 0))) = STATE_SKIING
   \<and> direction (skier (run_frames example_constants (frames_at open_slope ticks)
        (new_Game example_constants 0))) = DIRECTION_DOWN"
  by (simp add: skier_defs example_defs game_defs Let_def)

section \<open>Turning in the air\<close>

lemma turnLeft_while_jumping: "state s = STATE_JUMPING \<Longrightarrow> turnLeft s = s"
  by (simp add: turnLeft_def isCrashed_def Let_def)

lemma turnRight_while_jumping: "state s = STATE_JUMPING \<Longrightarrow> turnRight s = s"
  by (simp add: turnRight_def isCrashed_def Let_def)

lemma turnDown_while_jumping:
  "state s = STATE_JUMPING \<Longrightarrow> direction (turnDown s) = DIRECTION_DOWN"
  by (simp add: turnDown_def isCrashed_def setDirection_def setDirectionalImage_def)

text \<open>
  Claim C4: while the skier is jumping no input changes its direction: after turn-left,
  turn-right or turn-down handled in the jumping state the direction is what it was.
  \<^verbatim>\<open>turnLeft\<close> and \<^verbatim>\<open>turnRight\<close> test for the jumping state and do nothing in it (the two
  lemmas above); \<^verbatim>\<open>turnDown\<close> has no such test. A skier that faces left-down (1) in the
  air and receives the down key faces down (2) afterwards, still jumping.
\<close>

theorem turnDown_changes_direction_in_air:
  "state airborne_skier = STATE_JUMPING
   \<and> direction airborne_skier = DIRECTION_LEFT_DOWN
   \<and> fst (handleInput example_constants ''ArrowDown'' airborne_skier) = True
   \<and> state (snd (handleInput example_constants ''ArrowDown'' airborne_skier)) = STATE_JUMPING
   \<and> direction (snd (handleInput example_constants ''ArrowDown'' airborne_skier))
       = DIRECTION_DOWN
   \<and> DIRECTION_DOWN \<noteq> DIRECTION_LEFT_DOWN"
  by (simp add: skier_defs example_defs Let_def)

section \<open>The frame cycle and a dead skier\<close>

lemma run_stays_playing: "isPlaying g \<Longrightarrow> isPlaying (run K F g)"
  by (simp add: game_defs Let_def)

lemma run_calls_playing:
  "isPlaying g \<Longrightarrow>
   calls (run K F g) =
     calls g @ [CLEAR_CANVAS]
     @ (if js_rem (currentScore g) (OBSTACLE_FREQUENCY_INCREASE_THRESHOLD K) = Some 0
        then [INCREASE_OBSTACLE_PLACEMENT_CHANCE] else [])
     @ [PLACE_NEW_OBSTACLE, SKIER_UPDATE, RHINO_UPDATE, SET_DRAW_OFFSET, DRAW_GAME_METADATA,
        SKIER_DRAW, RHINO_DRAW, DRAW_OBSTACLES, REQUEST_ANIMATION_FRAME]"
  by (simp add: game_defs Let_def)

lemma run_calls_paused: "isPaused g \<Longrightarrow> run K F g = called DRAW_PAUSE_ICON g"
  by (simp add: run_def isPlaying_def isPaused_def)

lemma run_counts_updates:
  "isPlaying g \<Longrightarrow>
   count_list (calls (run K F g)) SKIER_UPDATE = count_list (calls g) SKIER_UPDATE + 1
   \<and> count_list (calls (run K F g)) RHINO_UPDATE = count_list (calls g) RHINO_UPDATE + 1"
  by (simp add: run_calls_playing)

lemma update_of_dead_skier:
  "isDead s \<Longrightarrow> update K W t score s = increaseSpeedIfThresholdMet K score s"
  by (simp add: update_def predicate_defs Let_def)

text \<open>
  Claim C5, as amended: \<^verbatim>\<open>Game\<close> never tests whether the skier is dead. While the game is
  in the playing state, every frame of the cycle calls the update of the skier and the
  update of the rhino once each, whatever the state of the skier, the dead state included:
  over any sequence of frames the number of either call grows by the number of frames.
\<close>

theorem playing_frames_always_update:
  "isPlaying g \<Longrightarrow>
   count_list (calls (run_frames K Fs g)) SKIER_UPDATE
     = count_list (calls g) SKIER_UPDATE + length Fs
   \<and> count_list (calls (run_frames K Fs g)) RHINO_UPDATE
     = count_list (calls g) RHINO_UPDATE + length Fs"
proof (induction Fs arbitrary: g)
  case Nil
  show ?case by simp
next
  case (Cons F Fs)
  have playing: "isPlaying (run K F g)"
    using Cons.prems by (rule run_stays_playing)
  have step: "count_list (calls (run K F g)) SKIER_UPDATE = count_list (calls g) SKIER_UPDATE + 1
      \<and> count_list (calls (run K F g)) RHINO_UPDATE = count_list (calls g) RHINO_UPDATE + 1"
    using Cons.prems by (rule run_counts_updates)
  from Cons.IH [OF playing] step Cons.prems show ?case by simp
qed

lemma caught_game_is_dead:
  "isPlaying caught_game \<and> isDead (skier caught_game)"
  by (simp add: skier_defs example_defs game_defs Let_def)

theorem playing_frames_always_update_witness:
  "isPlaying caught_game \<and> isDead (skier caught_game)
   \<and> count_list (calls (run_frames example_constants (frames_at open_slope [32, 48, 64])
        caught_game)) SKIER_UPDATE = count_list (calls caught_game) SKIER_UPDATE + 3
   \<and> count_list (calls (run_frames example_constants (frames_at open_slope [32, 48, 64])
        caught_game)) RHINO_UPDATE = count_list (calls caught_game) RHINO_UPDATE + 3"
proof -
  have playing: "isPlaying caught_game"
    using caught_game_is_dead by simp
  have len: "length (frames_at open_slope [32, 48, 64]) = 3"
    by (simp add: frames_at_def)
  from playing_frames_always_update [OF playing, of example_constants
      "frames_at open_slope [32, 48, 64]"] len caught_game_is_dead
  show ?thesis by simp
qed

text \<open>
  Claim C5 as the spec states it: once the skier is dead, no later frame calls the update
  of the skier or of the rhino. It fails in the frame after the rhino has caught the
  skier: the game is still playing, the skier is dead, and the frame makes both calls.
\<close>

theorem dead_skier_still_updated:
  "isDead (skier caught_game)
   \<and> calls (run example_constants (frame_at 32 open_slope) caught_game)
       = calls caught_game
         @ [CLEAR_CANVAS, INCREASE_OBSTACLE_PLACEMENT_CHANCE, PLACE_NEW_OBSTACLE,
            SKIER_UPDATE, RHINO_UPDATE, SET_DRAW_OFFSET, DRAW_GAME_METADATA,
            SKIER_DRAW, RHINO_DRAW, DRAW_OBSTACLES, REQUEST_ANIMATION_FRAME]"
  by (simp add: skier_defs example_defs game_defs Let_def)

section \<open>Interaction with obstacles\<close>

text \<open>
  Claim C6: the interaction with an obstacle depends on the state of the skier and on the
  type of the obstacle. While skiing, an obstacle other than the ramp leaves the skier
  crashed with speed 0, whatever its speed and direction were, and the ramp leaves it
  jumping. While jumping, a rock or the ramp changes nothing, and an obstacle that is not
  in the list of jumpable obstacles (a tree, say) leaves the skier crashed with speed 0.
\<close>

theorem interactWithObstacle_dispatch:
  "(state s = STATE_SKIING \<and> ob \<noteq> JUMP_RAMP \<longrightarrow>
      state (interactWithObstacle ob s) = STATE_CRASHED
      \<and> speed (interactWithObstacle ob s) = 0)
   \<and> (state s = STATE_SKIING \<and> ob = JUMP_RAMP \<longrightarrow>
      state (interactWithObstacle ob s) = STATE_JUMPING)
   \<and> (state s = STATE_JUMPING \<and> (ob = ROCK1 \<or> ob = ROCK2 \<or> ob = JUMP_RAMP) \<longrightarrow>
      interactWithObstacle ob s = s)
   \<and> (state s = STATE_JUMPING \<and> ob \<notin> set JUMPABLE_OBSTACLES \<longrightarrow>
      state (interactWithObstacle ob s) = STATE_CRASHED
      \<and> speed (interactWithObstacle ob s) = 0)"
  by (auto simp add: interactWithObstacle_def interactWhileSkiing_def interactWhileJumping_def
      JUMPABLE_OBSTACLES_def crash_def jump_def setAnimation_def isCrashed_def Let_def)

theorem interactWithObstacle_dispatch_witness:
  "state (new_Skier 0 0 0) = STATE_SKIING \<and> TREE \<noteq> JUMP_RAMP
   \<and> state (interactWithObstacle TREE (new_Skier 0 0 0)) = STATE_CRASHED
   \<and> speed (interactWithObstacle TREE (new_Skier 0 0 0)) = 0
   \<and> state (interactWithObstacle JUMP_RAMP (new_Skier 0 0 0)) = STATE_JUMPING
   \<and> state airborne_skier = STATE_JUMPING
   \<and> interactWithObstacle ROCK1 airborne_skier = airborne_skier
   \<and> TREE \<notin> set JUMPABLE_OBSTACLES
   \<and> state (interactWithObstacle TREE airborne_skier) = STATE_CRASHED
   \<and> speed (interactWithObstacle TREE airborne_skier) = 0"
proof -
  have skiing: "state (new_Skier 0 0 0) = STATE_SKIING"
    by (simp add: new_Skier_def)
  have jumping: "state airborne_skier = STATE_JUMPING"
    by (simp add: skier_defs example_defs Let_def)
  have tree: "TREE \<notin> set JUMPABLE_OBSTACLES"
    by (simp add: JUMPABLE_OBSTACLES_def)
  from interactWithObstacle_dispatch [of "new_Skier 0 0 0" TREE]
    interactWithObstacle_dispatch [of "new_Skier 0 0 0" JUMP_RAMP]
    interactWithObstacle_dispatch [of airborne_skier ROCK1]
    interactWithObstacle_dispatch [of airborne_skier TREE]
    skiing jumping tree
  show ?thesis by simp
qed

section \<open>Movement in a frame\<close>






lemma increaseSpeedIfThresholdMet_position:
  "position_x (increaseSpeedIfThresholdMet K score s) = position_x s
   \<and> position_y (increaseSpeedIfThresholdMet K score s) = position_y s"
  by (simp add: increaseSpeedIfThresholdMet_def)


lemma update_of_stopped_skier_position:
  "state s = STATE_CRASHED \<or> state s = STATE_DEAD \<Longrightarrow>
   position_x (update K W t score s) = position_x s
   \<and> position_y (update K W t score s) = position_y s"
  by (auto simp add: update_def isSkiing_def isJumping_def Let_def
      increaseSpeedIfThresholdMet_position)






section \<open>The score\<close>

lemma updateCurrentScore_rule:
  "currentScore (updateCurrentScore g) =
     (if isDownwardsFacing (skier g) \<and> 0 < speed (skier g)
      then currentScore g + 1 else currentScore g)"
  by (simp add: updateCurrentScore_def isMovingDownwards_def)

lemma updateCurrentScore_horizontal:
  "direction (skier g) = DIRECTION_LEFT \<or> direction (skier g) = DIRECTION_RIGHT
     \<Longrightarrow> updateCurrentScore g = g"
  by (auto simp add: updateCurrentScore_def predicate_defs DIRECTION_defs)

lemma updateCurrentScore_stopped: "speed (skier g) = 0 \<Longrightarrow> updateCurrentScore g = g"
  by (simp add: updateCurrentScore_def isMovingDownwards_def)

text \<open>
  Claim C8: in every frame the score grows by exactly 1 if the direction of the skier has a
  downward component and its speed is positive, and is unchanged otherwise, so that a
  crashed skier, or one that faces fully left or right, never gains score. The rule is
  what \<^verbatim>\<open>updateCurrentScore\<close> does (the lemmas above), and the README says of it that the
  skier gets no points ``when crashed or stopped''. A crashed skier does gain score: the
  speed increase that \<^verbatim>\<open>update\<close> applies in every state gives a skier that crashes at
  score 0 the speed 1, and from then on the score grows in every frame although the skier
  stays crashed and does not move.
\<close>

theorem crashed_skier_gains_score:
  "state (skier (run_frames example_constants (frames_at tree_ahead (take 1 ticks))
      (new_Game example_constants 0))) = STATE_CRASHED
   \<and> currentScore (run_frames example_constants (frames_at tree_ahead (take 1 ticks))
      (new_Game example_constants 0)) = 1
   \<and> position_y (skier (run_frames example_constants (frames_at tree_ahead (take 1 ticks))
      (new_Game example_constants 0))) = 5
   \<and> state (skier (run_frames example_constants (frames_at tree_ahead (take 3 ticks))
      (new_Game example_constants 0))) = STATE_CRASHED
   \<and> currentScore (run_frames example_constants (frames_at tree_ahead (take 3 ticks))
      (new_Game example_constants 0)) = 3
   \<and> position_y (skier (run_frames example_constants (frames_at tree_ahead (take 3 ticks))
      (new_Game example_constants 0))) = 5"
  by (simp add: skier_defs example_defs game_defs Let_def)

section \<open>Keyboard input\<close>

text \<open>
  Claim C9: \<^verbatim>\<open>handleInput\<close> returns whether it has consumed the key. For a dead skier it
  returns false and changes nothing. Otherwise it returns true for the keys of jump, left,
  right, up and down, and false for every other key (which changes nothing either).
\<close>

theorem handleInput_contract:
  "(isDead s \<longrightarrow> handleInput K k s = (False, s))
   \<and> (\<not> isDead s
       \<and> (k = KEYS_SPACE K \<or> k = KEYS_LEFT K \<or> k = KEYS_RIGHT K \<or> k = KEYS_UP K
           \<or> k = KEYS_DOWN K) \<longrightarrow>
      fst (handleInput K k s) = True)
   \<and> (\<not> isDead s
       \<and> k \<noteq> KEYS_SPACE K \<and> k \<noteq> KEYS_LEFT K \<and> k \<noteq> KEYS_RIGHT K \<and> k \<noteq> KEYS_UP K
       \<and> k \<noteq> KEYS_DOWN K \<longrightarrow>
      handleInput K k s = (False, s))"
  by (auto simp add: handleInput_def)

theorem handleInput_contract_witness:
  "isDead (die (new_Skier 0 0 0))
   \<and> handleInput example_constants ''ArrowLeft'' (die (new_Skier 0 0 0))
       = (False, die (new_Skier 0 0 0))
   \<and> \<not> isDead (new_Skier 0 0 0)
   \<and> fst (handleInput example_constants '' '' (new_Skier 0 0 0)) = True
   \<and> fst (handleInput example_constants ''ArrowLeft'' (new_Skier 0 0 0)) = True
   \<and> fst (handleInput example_constants ''ArrowRight'' (new_Skier 0 0 0)) = True
   \<and> fst (handleInput example_constants ''ArrowUp'' (new_Skier 0 0 0)) = True
   \<and> fst (handleInput example_constants ''ArrowDown'' (new_Skier 0 0 0)) = True
   \<and> handleInput example_constants ''q'' (new_Skier 0 0 0) = (False, new_Skier 0 0 0)"
proof -
  have dead: "isDead (die (new_Skier 0 0 0))"
    by (simp add: isDead_def die_def)
  have alive: "\<not> isDead (new_Skier 0 0 0)"
    by (simp add: isDead_def new_Skier_def)
  from handleInput_contract [of "die (new_Skier 0 0 0)" example_constants "''ArrowLeft''"]
    handleInput_contract [of "new_Skier 0 0 0" example_constants "'' ''"]
    handleInput_contract [of "new_Skier 0 0 0" example_constants "''ArrowLeft''"]
    handleInput_contract [of "new_Skier 0 0 0" example_constants "''ArrowRight''"]
    handleInput_contract [of "new_Skier 0 0 0" example_constants "''ArrowUp''"]
    handleInput_contract [of "new_Skier 0 0 0" example_constants "''ArrowDown''"]
    handleInput_contract [of "new_Skier 0 0 0" example_constants "''q''"]
    dead alive
  show ?thesis by (simp add: example_constants_def)
qed

section \<open>Recovering from a crash\<close>

text \<open>
  Claim C10: a call of turn-left on a crashed skier sets the state to skiing, the speed to
  the starting speed and the direction to left, and in the same call moves \<open>x\<close> by the
  starting speed to the left, with \<open>y\<close> unchanged; turn-right does the same to the right.
\<close>

theorem turn_from_crash_sidesteps:
  "isCrashed s \<Longrightarrow>
     state (turnLeft s) = STATE_SKIING
     \<and> speed (turnLeft s) = STARTING_SPEED
     \<and> direction (turnLeft s) = DIRECTION_LEFT
     \<and> position_x (turnLeft s) = position_x s - STARTING_SPEED
     \<and> position_y (turnLeft s) = position_y s
     \<and> state (turnRight s) = STATE_SKIING
     \<and> speed (turnRight s) = STARTING_SPEED
     \<and> direction (turnRight s) = DIRECTION_RIGHT
     \<and> position_x (turnRight s) = position_x s + STARTING_SPEED
     \<and> position_y (turnRight s) = position_y s"
  by (simp add: turnLeft_def turnRight_def recoverFromCrash_def setDirection_def
      setDirectionalImage_def moveSkierLeft_def moveSkierRight_def Let_def)

theorem turn_from_crash_sidesteps_witness:
  "isCrashed (crash (new_Skier 0 0 0))
   \<and> speed (crash (new_Skier 0 0 0)) = 0
   \<and> state (turnLeft (crash (new_Skier 0 0 0))) = STATE_SKIING
   \<and> speed (turnLeft (crash (new_Skier 0 0 0))) = 5
   \<and> direction (turnLeft (crash (new_Skier 0 0 0))) = 0
   \<and> position_x (turnLeft (crash (new_Skier 0 0 0))) = - 5
   \<and> position_y (turnLeft (crash (new_Skier 0 0 0))) = 0
   \<and> state (turnRight (crash (new_Skier 0 0 0))) = STATE_SKIING
   \<and> speed (turnRight (crash (new_Skier 0 0 0))) = 5
   \<and> direction (turnRight (crash (new_Skier 0 0 0))) = 4
   \<and> position_x (turnRight (crash (new_Skier 0 0 0))) = 5
   \<and> position_y (turnRight (crash (new_Skier 0 0 0))) = 0"
proof -
  have crashed: "isCrashed (crash (new_Skier 0 0 0))"
    by (simp add: isCrashed_def crash_def)
  have before: "speed (crash (new_Skier 0 0 0)) = 0"
    "position_x (crash (new_Skier 0 0 0)) = 0" "position_y (crash (new_Skier 0 0 0)) = 0"
    by (simp_all add: crash_def new_Skier_def)
  from turn_from_crash_sidesteps [OF crashed] crashed before
  show ?thesis by (simp add: STARTING_SPEED_def DIRECTION_defs)
qed

end
